theory Spec2Isabelle
  imports Main "HOL-Library.AList" "HOL-Library.Sublist"
begin

section \<open>JavaScript values\<close>

text \<open>
  The values the dashboard handles are the data of JSON responses, the strings of form
  inputs, and what property lookups on them produce. \<open>JObj\<close> carries the own
  properties of an object in insertion order, \<open>JFun\<close> is a built-in function
  known by its name, \<open>JProto\<close> is the object \<^verbatim>\<open>Object.prototype\<close>
  and \<open>JNaN\<close> the number NaN. Numbers are integers (identifiers, ratings),
  rendered in decimal. Where a key stands twice in the list of an object, the first
  entry is the property.
\<close>

datatype jsval =
    JUndefined
  | JNull
  | JBool bool
  | JNum int
  | JNaN
  | JStr string
  | JArr "jsval list"
  | JObj "(string \<times> jsval) list"
  | JFun string
  | JProto

type_synonym item = "(string \<times> jsval) list"

text \<open>A thrown \<^verbatim>\<open>Error\<close>, with its message.\<close>

datatype error = Error string

type_synonym 'a outcome = "error + 'a"

text \<open>Truthiness, as \<^verbatim>\<open>||\<close>, \<^verbatim>\<open>&&\<close>, \<^verbatim>\<open>!\<close> and \<^verbatim>\<open>if\<close> test it.\<close>

fun truthy :: "jsval \<Rightarrow> bool" where
  "truthy JUndefined = False"
| "truthy JNull = False"
| "truthy (JBool b) = b"
| "truthy (JNum n) = (n \<noteq> 0)"
| "truthy JNaN = False"
| "truthy (JStr s) = (s \<noteq> [])"
| "truthy (JArr xs) = True"
| "truthy (JObj ps) = True"
| "truthy (JFun f) = True"
| "truthy JProto = True"

definition jsOr :: "jsval \<Rightarrow> jsval \<Rightarrow> jsval" where
  "jsOr a b = (if truthy a then a else b)"

subsection \<open>Strings\<close>

definition digit_char :: "nat \<Rightarrow> char" where
  "digit_char d = char_of (48 + d)"

function show_nat :: "nat \<Rightarrow> string" where
  "show_nat n = (if n < 10 then [digit_char n] else show_nat (n div 10) @ [digit_char (n mod 10)])"
  by pat_completeness auto
termination
  by (relation "measure id") auto

definition show_int :: "int \<Rightarrow> string" where
  "show_int i = (if i < 0 then CHR ''-'' # show_nat (nat (- i)) else show_nat (nat i))"



fun starts_with :: "string \<Rightarrow> string \<Rightarrow> bool" where
  "starts_with s [] = True"
| "starts_with [] (d # t) = False"
| "starts_with (c # s) (d # t) = (c = d \<and> starts_with s t)"



subsection \<open>Conversion to a string\<close>

text \<open>
  The \<^verbatim>\<open>TypeError\<close> of a conversion that finds no callable \<^verbatim>\<open>toString\<close>.
  The wording of its message is the engine's; the model writes one.
\<close>

definition conversion_error :: error where
  "conversion_error = Error ''Cannot convert object to primitive value''"

text \<open>
  What \<^verbatim>\<open>value.toString()\<close>, a template literal, a property key and
  \<^verbatim>\<open>setItem\<close> make of a value. An array joins its elements, left to right,
  \<^verbatim>\<open>null\<close> and \<^verbatim>\<open>undefined\<close> elements as empty strings. An object without
  a property \<^verbatim>\<open>toString\<close> of its own inherits the one of
  \<^verbatim>\<open>Object.prototype\<close> and gives \<^verbatim>\<open>[object Object]\<close>. An own property
  \<^verbatim>\<open>toString\<close> shadows it: JSON data carries no functions, so such a property
  is not callable and the conversion throws (the inherited \<^verbatim>\<open>valueOf\<close> returns
  the object itself and does not help). Of the functions the model knows only the two
  inherited conversions give a string when they stand there.
\<close>

fun js_toString :: "jsval \<Rightarrow> error + string"
  and js_join :: "string \<Rightarrow> jsval list \<Rightarrow> error + string" where
  "js_toString JUndefined = Inr ''undefined''"
| "js_toString JNull = Inr ''null''"
| "js_toString (JBool b) = Inr (if b then ''true'' else ''false'')"
| "js_toString (JNum n) = Inr (show_int n)"
| "js_toString JNaN = Inr ''NaN''"
| "js_toString (JStr s) = Inr s"
| "js_toString (JArr xs) = js_join '','' xs"
| "js_toString (JObj ps) =
     (case map_of ps ''toString'' of
        None \<Rightarrow> Inr ''[object Object]''
      | Some v \<Rightarrow>
          if v = JFun ''toString'' \<or> v = JFun ''toLocaleString'' then Inr ''[object Object]''
          else Inl conversion_error)"
| "js_toString (JFun f) = Inr (''function '' @ f @ ''() { [native code] }'')"
| "js_toString JProto = Inr ''[object Object]''"
| "js_join sep [] = Inr []"
| "js_join sep (x # xs) =
     (case (if x = JUndefined \<or> x = JNull then Inr [] else js_toString x) of
        Inl e \<Rightarrow> Inl e
      | Inr a \<Rightarrow>
          if xs = [] then Inr a
          else (case js_join sep xs of Inl e \<Rightarrow> Inl e | Inr b \<Rightarrow> Inr (a @ sep @ b)))"




subsection \<open>Property lookup\<close>

text \<open>
  An object literal and an object parsed from JSON inherit from
  \<^verbatim>\<open>Object.prototype\<close>: a lookup that finds no own property continues there.
  These are the members a browser's \<^verbatim>\<open>Object.prototype\<close> has.
\<close>

definition objectPrototype :: "string \<Rightarrow> jsval" where
  "objectPrototype key =
     (if key = ''constructor'' then JFun ''Object''
      else if key \<in> set [''hasOwnProperty'', ''isPrototypeOf'', ''propertyIsEnumerable'',
          ''toString'', ''toLocaleString'', ''valueOf'', ''__defineGetter__'',
          ''__defineSetter__'', ''__lookupGetter__'', ''__lookupSetter__'']
      then JFun key
      else JUndefined)"

definition objMember :: "item \<Rightarrow> string \<Rightarrow> jsval" where
  "objMember ps key =
     (case map_of ps key of
        Some v \<Rightarrow> v
      | None \<Rightarrow> if key = ''__proto__'' then JProto else objectPrototype key)"



section \<open>Utility functions\<close>

subsection \<open>Status formatting\<close>

definition statusMap :: item where
  "statusMap =
     [(''SUBMITTED'', JStr ''Submitted''),
      (''UNDER_REVIEW'', JStr ''Under Review''),
      (''UNDER_INVESTIGATION'', JStr ''Under Investigation''),
      (''IN_PROGRESS'', JStr ''In Progress''),
      (''APPROVED'', JStr ''Approved''),
      (''REJECTED'', JStr ''Rejected''),
      (''PAID'', JStr ''Paid''),
      (''COMPLETED'', JStr ''Completed''),
      (''RESOLVED'', JStr ''Resolved''),
      (''CLOSED'', JStr ''Closed''),
      (''PENDING'', JStr ''Pending''),
      (''FAILED'', JStr ''Failed''),
      (''REFUNDED'', JStr ''Refunded'')]"

text \<open>\<^verbatim>\<open>return statusMap[status] || status;\<close>\<close>

definition formatStatus :: "string \<Rightarrow> jsval" where
  "formatStatus status = jsOr (objMember statusMap status) (JStr status)"

definition classMap :: item where
  "classMap =
     [(''SUBMITTED'', JStr ''submitted''),
      (''UNDER_REVIEW'', JStr ''under-review''),
      (''UNDER_INVESTIGATION'', JStr ''under-review''),
      (''IN_PROGRESS'', JStr ''under-review''),
      (''APPROVED'', JStr ''approved''),
      (''REJECTED'', JStr ''rejected''),
      (''PAID'', JStr ''paid''),
      (''COMPLETED'', JStr ''completed''),
      (''RESOLVED'', JStr ''completed''),
      (''CLOSED'', JStr ''completed''),
      (''PENDING'', JStr ''submitted''),
      (''FAILED'', JStr ''rejected''),
      (''REFUNDED'', JStr ''submitted'')]"

text \<open>\<^verbatim>\<open>return classMap[status] || 'submitted';\<close>\<close>

definition getStatusClass :: "string \<Rightarrow> jsval" where
  "getStatusClass status = jsOr (objMember classMap status) (JStr ''submitted'')"

subsection \<open>Search\<close>






subsection \<open>Formatting\<close>






section \<open>Session storage and authentication\<close>

text \<open>
  A storage scope, with the three keys the code uses. A stored value is a string; the
  slot \<open>userData\<close> holds the object whose JSON text the storage holds
  (\<^verbatim>\<open>JSON.stringify\<close> on writing, \<^verbatim>\<open>JSON.parse\<close> on reading). \<open>None\<close> is
  the \<^verbatim>\<open>null\<close> that \<^verbatim>\<open>getItem\<close> returns for a missing key.
\<close>

record scope =
  access_token :: "string option"
  userData :: "item option"
  returnUrl :: "string option"

record storage =
  localStorage :: scope
  sessionStorage :: scope

text \<open>\<^verbatim>\<open>localStorage.getItem('access_token') || sessionStorage.getItem('access_token')\<close>\<close>

definition getAuthToken :: "storage \<Rightarrow> string option" where
  "getAuthToken st =
     (case access_token (localStorage st) of
        Some t \<Rightarrow> if t \<noteq> [] then Some t else access_token (sessionStorage st)
      | None \<Rightarrow> access_token (sessionStorage st))"

definition setAuthToken :: "string \<Rightarrow> bool \<Rightarrow> storage \<Rightarrow> storage" where
  "setAuthToken token remember st =
     (let st1 = (if remember
                 then st\<lparr>localStorage := (localStorage st)\<lparr>access_token := Some token\<rparr>\<rparr>
                 else st)
      in st1\<lparr>sessionStorage := (sessionStorage st1)\<lparr>access_token := Some token\<rparr>\<rparr>)"

definition clearAuthToken :: "storage \<Rightarrow> storage" where
  "clearAuthToken st =
     st\<lparr>localStorage := (localStorage st)\<lparr>access_token := None, userData := None\<rparr>,
        sessionStorage := (sessionStorage st)\<lparr>access_token := None, userData := None\<rparr>\<rparr>"


definition setUserData :: "item \<Rightarrow> bool \<Rightarrow> storage \<Rightarrow> storage" where
  "setUserData d remember st =
     (let st1 = (if remember
                 then st\<lparr>localStorage := (localStorage st)\<lparr>userData := Some d\<rparr>\<rparr>
                 else st)
      in st1\<lparr>sessionStorage := (sessionStorage st1)\<lparr>userData := Some d\<rparr>\<rparr>)"

definition isAuthenticated :: "storage \<Rightarrow> bool" where
  "isAuthenticated st = (case getAuthToken st of Some t \<Rightarrow> t \<noteq> [] | None \<Rightarrow> False)"

text \<open>
  \<open>logout\<close>: the answer to the confirmation dialog is an argument; the result is the
  storage and the page the browser is sent to, if any.
\<close>

definition logout :: "bool \<Rightarrow> storage \<Rightarrow> storage \<times> string option" where
  "logout confirmed st =
     (if confirmed then (clearAuthToken st, Some ''/frontend/citizen/auth.html'')
      else (st, None))"

section \<open>API helpers\<close>

datatype upload_file = File string

datatype body =
    JsonBody jsval
  | FormBody "(string \<times> string) list"
  | MultipartBody "(string \<times> upload_file) list"

text \<open>
  The second argument of \<^verbatim>\<open>apiRequest\<close> and of \<^verbatim>\<open>fetch\<close>. \<open>JsonBody v\<close> is
  the text \<^verbatim>\<open>JSON.stringify(v)\<close>, \<open>FormBody\<close> a \<^verbatim>\<open>URLSearchParams\<close>,
  \<open>MultipartBody\<close> a \<^verbatim>\<open>FormData\<close>.
\<close>

record options =
  http_method :: "string option"
  headers :: "(string \<times> string) list"
  body :: "body option"

text \<open>
  An invocation of \<^verbatim>\<open>apiRequest(endpoint, options)\<close>, and the invocation of
  \<^verbatim>\<open>fetch\<close> it makes; \<open>url\<close> is relative to \<^verbatim>\<open>API_BASE_URL\<close>.
\<close>

record apiCall =
  endpoint :: string
  call_options :: options

record request =
  url :: string
  config :: options

text \<open>\<^verbatim>\<open>{ ...a, ...b }\<close>: the keys of \<open>a\<close> in their order, overridden by \<open>b\<close>.\<close>

definition spread :: "(string \<times> string) list \<Rightarrow> (string \<times> string) list \<Rightarrow> (string \<times> string) list" where
  "spread a b = foldl (\<lambda>acc kv. AList.update (fst kv) (snd kv) acc) a b"

definition defaultHeaders :: "string option \<Rightarrow> (string \<times> string) list" where
  "defaultHeaders token =
     (''Content-Type'', ''application/json'') #
     (case token of
        Some t \<Rightarrow> if t \<noteq> [] then [(''Authorization'', ''Bearer '' @ t)] else []
      | None \<Rightarrow> [])"

text \<open>The request \<^verbatim>\<open>apiRequest\<close> sends, with the token the storage holds then.\<close>

definition apiRequest :: "storage \<Rightarrow> apiCall \<Rightarrow> request" where
  "apiRequest st c =
     \<lparr>url = endpoint c,
      config = (call_options c)
        \<lparr>headers := spread (defaultHeaders (getAuthToken st)) (headers (call_options c))\<rparr>\<rparr>"

definition apiGet :: "string \<Rightarrow> apiCall" where
  "apiGet e = \<lparr>endpoint = e,
     call_options = \<lparr>http_method = Some ''GET'', headers = [], body = None\<rparr>\<rparr>"

definition apiPost :: "string \<Rightarrow> jsval \<Rightarrow> apiCall" where
  "apiPost e d = \<lparr>endpoint = e,
     call_options = \<lparr>http_method = Some ''POST'', headers = [], body = Some (JsonBody d)\<rparr>\<rparr>"

definition apiPut :: "string \<Rightarrow> jsval \<Rightarrow> apiCall" where
  "apiPut e d = \<lparr>endpoint = e,
     call_options = \<lparr>http_method = Some ''PUT'', headers = [], body = Some (JsonBody d)\<rparr>\<rparr>"

definition apiDelete :: "string \<Rightarrow> apiCall" where
  "apiDelete e = \<lparr>endpoint = e,
     call_options = \<lparr>http_method = Some ''DELETE'', headers = [], body = None\<rparr>\<rparr>"

text \<open>Form-encoded POST (for login); the fields of the form are strings.\<close>

definition apiPostForm :: "string \<Rightarrow> (string \<times> string) list \<Rightarrow> apiCall" where
  "apiPostForm e formData = \<lparr>endpoint = e,
     call_options = \<lparr>http_method = Some ''POST'',
       headers = [(''Content-Type'', ''application/x-www-form-urlencoded'')],
       body = Some (FormBody formData)\<rparr>\<rparr>"

definition AuthAPI_login :: "string \<Rightarrow> string \<Rightarrow> apiCall" where
  "AuthAPI_login email password =
     apiPost ''/auth/login'' (JObj [(''email'', JStr email), (''password'', JStr password)])"


definition RequestAPI_getMyRequests :: apiCall where
  "RequestAPI_getMyRequests = apiGet ''/requests/my-requests''"

definition RequestAPI_create :: "jsval \<Rightarrow> apiCall" where
  "RequestAPI_create d = apiPost ''/requests/'' d"



definition FeedbackAPI_create :: "jsval \<Rightarrow> apiCall" where
  "FeedbackAPI_create d = apiPost ''/feedbacks/'' d"


definition NotificationAPI_markAsRead :: "int \<Rightarrow> apiCall" where
  "NotificationAPI_markAsRead i =
     apiPut (''/notifications/'' @ show_int i @ ''/read'') (JObj [])"

text \<open>
  \<^verbatim>\<open>FileAPI.uploadRequestFile\<close> calls \<^verbatim>\<open>fetch\<close> itself: a multipart body with
  the field \<^verbatim>\<open>file\<close>, and the token in a template literal whatever it is. The
  result is the request it sends; when the identifier does not convert to a string the
  upload rejects before any request.
\<close>

definition FileAPI_uploadRequestFile ::
  "storage \<Rightarrow> jsval \<Rightarrow> upload_file \<Rightarrow> error + request" where
  "FileAPI_uploadRequestFile st requestId f =
     (case js_toString requestId of
        Inl e \<Rightarrow> Inl e
      | Inr i \<Rightarrow>
          Inr \<lparr>url = ''/files/requests/'' @ i @ ''/upload'',
               config = \<lparr>http_method = Some ''POST'',
                 headers = [(''Authorization'', ''Bearer '' @
                   (case getAuthToken st of Some t \<Rightarrow> t | None \<Rightarrow> ''null''))],
                 body = Some (MultipartBody [(''file'', f)])\<rparr>\<rparr>)"

subsection \<open>The answer to a request\<close>








section \<open>Login\<close>

text \<open>
  \<open>login\<close>: the call it awaits, how that call settled (\<open>res\<close>), and the
  storage, \<open>st\<close> being the storage at the moment the call settles. An omitted
  \<^verbatim>\<open>remember\<close> is \<^verbatim>\<open>true\<close>. \<^verbatim>\<open>setItem\<close> converts the token to a
  string; when that throws, in the first \<^verbatim>\<open>setItem\<close>, nothing is stored and
  the login rejects.
\<close>

definition login ::
  "string \<Rightarrow> string \<Rightarrow> bool \<Rightarrow> item outcome \<Rightarrow> storage \<Rightarrow>
   apiCall \<times> item outcome \<times> storage" where
  "login email password remember res st =
     (AuthAPI_login email password,
      (case res of
         Inl e \<Rightarrow> (Inl e, st)
       | Inr d \<Rightarrow>
           (case js_toString (objMember d ''access_token'') of
              Inl e \<Rightarrow> (Inl e, st)
            | Inr token \<Rightarrow>
                (Inr d,
                 setUserData
                   [(''user_id'', objMember d ''user_id''),
                    (''email'', objMember d ''email''),
                    (''role'', objMember d ''role'')]
                   remember
                   (setAuthToken token remember st)))))"

section \<open>The citizen dashboard\<close>

record filters =
  requests_filter :: string
  complaints_filter :: string
  payments_filter :: string
  notifications_filter :: string

record state =
  currentTab :: string
  requests :: "item list"
  complaints :: "item list"
  payments :: "item list"
  notifications :: "item list"
  profile :: jsval
  filters :: filters

text \<open>
  What a handler does besides changing the state, in the order it does it: the calls
  of the API facades, the uploads, the messages shown, the timers set, the page the
  browser is sent to, the text written to an element and the rows written to a list
  (each row the strings of its template; no rows is the empty state).
\<close>

datatype effect =
    Call apiCall
  | Upload jsval upload_file
  | ShowMessage string string
  | ShowElementMessage string string string
  | ConsoleLog string
  | ConsoleError string
  | SetTimeout nat
  | Redirect string
  | SetText string string
  | ShowRows string "string list list"

subsection \<open>Rendering: the rows a list shows\<close>





















subsection \<open>Loading\<close>






subsection \<open>Form submissions\<close>

text \<open>
  \<^verbatim>\<open>parseInt(string)\<close>: leading white space, a sign, \<^verbatim>\<open>0x\<close> for base 16,
  then the longest run of digits; NaN when there is none.
\<close>

definition is_space :: "char \<Rightarrow> bool" where
  "is_space c = ((of_char c :: nat) \<in> set [9, 10, 11, 12, 13, 32])"

definition digit_value :: "nat \<Rightarrow> char \<Rightarrow> nat option" where
  "digit_value radix c =
     (let n = (of_char c :: nat);
          d = (if 48 \<le> n \<and> n \<le> 57 then n - 48
               else if 97 \<le> n \<and> n \<le> 122 then n - 87
               else if 65 \<le> n \<and> n \<le> 90 then n - 55
               else radix)
      in if d < radix then Some d else None)"

fun digits_prefix :: "nat \<Rightarrow> string \<Rightarrow> nat list" where
  "digits_prefix radix [] = []"
| "digits_prefix radix (c # cs) =
     (case digit_value radix c of
        None \<Rightarrow> []
      | Some d \<Rightarrow> d # digits_prefix radix cs)"

definition parse_digits :: "nat \<Rightarrow> string \<Rightarrow> int option" where
  "parse_digits radix s =
     (case digits_prefix radix s of
        [] \<Rightarrow> None
      | d # ds \<Rightarrow> Some (int (foldl (\<lambda>a x. a * radix + x) 0 (d # ds))))"

definition parse_unsigned :: "string \<Rightarrow> int option" where
  "parse_unsigned s =
     (if starts_with s ''0x'' \<or> starts_with s ''0X'' then parse_digits 16 (drop 2 s)
      else parse_digits 10 s)"

definition parseInt :: "string \<Rightarrow> jsval" where
  "parseInt s =
     (case dropWhile is_space s of
        [] \<Rightarrow> JNaN
      | c # cs \<Rightarrow>
          if c = CHR ''-'' then (case parse_unsigned cs of None \<Rightarrow> JNaN | Some n \<Rightarrow> JNum (- n))
          else if c = CHR ''+'' then (case parse_unsigned cs of None \<Rightarrow> JNaN | Some n \<Rightarrow> JNum n)
          else (case parse_unsigned (c # cs) of None \<Rightarrow> JNaN | Some n \<Rightarrow> JNum n))"

text \<open>
  \<open>handleFeedback\<close>: the arguments are the values of the rating input, of the type
  select and of the comment field, and how \<^verbatim>\<open>FeedbackAPI.create\<close> settles when
  it is called.
\<close>

definition handleFeedback :: "string \<Rightarrow> string \<Rightarrow> string \<Rightarrow> jsval outcome \<Rightarrow> effect list" where
  "handleFeedback ratingInput feedbackType comment createRes =
     (let rating = parseInt ratingInput
      in if rating = JNum 0
         then [ShowElementMessage ''feedback-modal-message'' ''Please select a rating'' ''error'']
         else
           Call (FeedbackAPI_create
             (JObj [(''rating'', rating), (''feedback_type'', JStr feedbackType),
                    (''comment'', JStr comment)])) #
           (case createRes of
              Inr r \<Rightarrow>
                [ShowElementMessage ''feedback-modal-message'' ''Thank you for your feedback!''
                   ''success'',
                 SetTimeout 1500]
            | Inl (Error m) \<Rightarrow> [ShowElementMessage ''feedback-modal-message'' m ''error'']))"

text \<open>
  \<open>handleNewRequest\<close>: the arguments are the values of the form's two fields, the
  file of the attachment input if one was chosen, and how \<^verbatim>\<open>RequestAPI.create\<close>
  and the upload settle. The \<^verbatim>\<open>await\<close> of a rejected upload throws inside the
  \<^verbatim>\<open>try\<close>, past the \<^verbatim>\<open>setTimeout\<close> that schedules the reload.
\<close>

definition handleNewRequest ::
  "string \<Rightarrow> string \<Rightarrow> upload_file option \<Rightarrow> item outcome \<Rightarrow> jsval outcome \<Rightarrow> effect list" where
  "handleNewRequest requestType description attachment createRes uploadRes =
     Call (RequestAPI_create
       (JObj [(''request_type'', JStr requestType), (''description'', JStr description)])) #
     (case createRes of
        Inl (Error m) \<Rightarrow> [ShowElementMessage ''request-modal-message'' m ''error'']
      | Inr newRequest \<Rightarrow>
          (case attachment of
             None \<Rightarrow>
               [ShowElementMessage ''request-modal-message'' ''Request submitted successfully!''
                  ''success'',
                SetTimeout 1500]
           | Some f \<Rightarrow>
               Upload (objMember newRequest ''request_id'') f #
               (case uploadRes of
                  Inl (Error m) \<Rightarrow> [ShowElementMessage ''request-modal-message'' m ''error'']
                | Inr r \<Rightarrow>
                    [ShowElementMessage ''request-modal-message''
                       ''Request submitted successfully!'' ''success'',
                     SetTimeout 1500])))"

text \<open>
  The callback of that timer: \<^verbatim>\<open>state.requests = await RequestAPI.getMyRequests()\<close>.
  A rejected fetch ends the callback before the assignment.
\<close>

definition reloadRequests :: "item list outcome \<Rightarrow> state \<Rightarrow> state \<times> effect list" where
  "reloadRequests res s =
     (case res of
        Inl e \<Rightarrow> (s, [Call RequestAPI_getMyRequests])
      | Inr xs \<Rightarrow>
          (s\<lparr>requests := xs\<rparr>,
           [Call RequestAPI_getMyRequests, ShowMessage ''Request submitted successfully!'' ''success'']))"

text \<open>
  The submission from the click to the end of the timer's callback, when one was set.
\<close>

definition submitNewRequest ::
  "string \<Rightarrow> string \<Rightarrow> upload_file option \<Rightarrow> item outcome \<Rightarrow> jsval outcome \<Rightarrow>
   item list outcome \<Rightarrow> state \<Rightarrow> state \<times> effect list" where
  "submitNewRequest requestType description attachment createRes uploadRes reloadRes s =
     (let es = handleNewRequest requestType description attachment createRes uploadRes
      in if SetTimeout 1500 \<in> set es
         then (fst (reloadRequests reloadRes s), es @ snd (reloadRequests reloadRes s))
         else (s, es))"

subsection \<open>Notifications\<close>

text \<open>
  \<^verbatim>\<open>state.notifications.find(n => n.notification_id === notificationId)\<close>, then
  \<^verbatim>\<open>notif.is_read = true\<close> on the record found: the first one with that identifier.
\<close>

fun mark_first :: "int \<Rightarrow> item list \<Rightarrow> item list" where
  "mark_first i [] = []"
| "mark_first i (n # ns) =
     (if objMember n ''notification_id'' = JNum i
      then AList.update ''is_read'' (JBool True) n # ns
      else n # mark_first i ns)"

text \<open>
  \<open>markNotificationRead\<close>: \<open>res\<close> is how \<^verbatim>\<open>NotificationAPI.markAsRead\<close>
  settled.
\<close>

definition markNotificationRead :: "int \<Rightarrow> jsval outcome \<Rightarrow> state \<Rightarrow> state \<times> effect list" where
  "markNotificationRead notificationId res s =
     (case res of
        Inl e \<Rightarrow>
          (s, [Call (NotificationAPI_markAsRead notificationId),
               ConsoleError ''Error marking notification as read:''])
      | Inr r \<Rightarrow>
          (s\<lparr>notifications := mark_first notificationId (notifications s)\<rparr>,
           [Call (NotificationAPI_markAsRead notificationId)]))"


text \<open>The effects that reach the network.\<close>

fun is_network :: "effect \<Rightarrow> bool" where
  "is_network (Call c) = True"
| "is_network (Upload i f) = True"
| "is_network e = False"

section \<open>Sample data\<close>


definition empty_scope :: scope where
  "empty_scope = \<lparr>access_token = None, userData = None, returnUrl = None\<rparr>"

definition sample_storage :: storage where
  "sample_storage =
     \<lparr>localStorage = empty_scope\<lparr>access_token := Some ''durable''\<rparr>,
      sessionStorage = empty_scope\<lparr>access_token := Some ''ephemeral''\<rparr>\<rparr>"

definition sample_login :: item where
  "sample_login =
     [(''access_token'', JStr ''fresh''), (''user_id'', JNum 4),
      (''email'', JStr ''citizen@example.org''), (''role'', JStr ''citizen'')]"

definition permit :: item where
  "permit = [(''request_id'', JNum 1), (''request_type'', JStr ''Permit''),
     (''description'', JStr ''Building permit''), (''status'', JStr ''SUBMITTED'')]"

definition licence :: item where
  "licence = [(''request_id'', JNum 2), (''request_type'', JStr ''Licence''),
     (''description'', JStr ''Trade licence''), (''status'', JStr ''APPROVED'')]"


definition notice1 :: item where
  "notice1 = [(''notification_id'', JNum 1), (''title'', JStr ''Welcome''),
     (''is_read'', JBool False)]"

definition notice2 :: item where
  "notice2 = [(''notification_id'', JNum 2), (''title'', JStr ''Request approved''),
     (''is_read'', JBool False)]"

definition sample_state :: state where
  "sample_state =
     \<lparr>currentTab = ''dashboard'', requests = [permit, licence], complaints = [],
      payments = [], notifications = [notice1, notice2], profile = JNull,
      filters = \<lparr>requests_filter = ''all'', complaints_filter = ''all'',
        payments_filter = ''all'', notifications_filter = ''all''\<rparr>\<rparr>"

section \<open>Properties\<close>

subsection \<open>Records and header lists\<close>

lemma objMember_update:
  "objMember (AList.update k v n) k' = (if k' = k then v else objMember n k')"
  by (simp add: objMember_def update_conv')

lemma mark_first_absent:
  "\<forall>m\<in>set ns. objMember m ''notification_id'' \<noteq> JNum i \<Longrightarrow> mark_first i ns = ns"
  by (induction ns) auto

lemma mark_first_found:
  "\<forall>m\<in>set pre. objMember m ''notification_id'' \<noteq> JNum i \<Longrightarrow>
   objMember n ''notification_id'' = JNum i \<Longrightarrow>
   mark_first i (pre @ n # post) = pre @ AList.update ''is_read'' (JBool True) n # post"
  by (induction pre) auto

lemma map_of_spread:
  "map_of b k = None \<Longrightarrow> map_of (spread a b) k = map_of a k"
  unfolding spread_def
proof (induction b arbitrary: a)
  case Nil
  then show ?case by simp
next
  case (Cons kv b)
  then show ?case by (cases kv) (auto simp: update_conv' split: if_splits)
qed

lemma parseInt_samples:
  "parseInt ''0'' = JNum 0" "parseInt ''5'' = JNum 5" "parseInt ''-1'' = JNum (- 1)"
  "parseInt [] = JNaN"
  by (simp_all add: parseInt_def is_space_def parse_unsigned_def parse_digits_def
      digit_value_def Let_def)

subsection \<open>The body of the login call\<close>

text \<open>
  C1. \<^verbatim>\<open>AuthAPI.login\<close> goes through \<^verbatim>\<open>apiPost\<close>: for every email and password
  it calls \<^verbatim>\<open>/auth/login\<close> with the JSON body \<^verbatim>\<open>{email, password}\<close> and no
  header of its own, so the request leaves with the content type
  \<^verbatim>\<open>application/json\<close>. It is not the call \<^verbatim>\<open>apiPostForm\<close> would make, the
  helper whose comment reads "Form-encoded POST (for login)".
\<close>

theorem AuthAPI_login_json_body:
  "AuthAPI_login email password =
     \<lparr>endpoint = ''/auth/login'',
      call_options = \<lparr>http_method = Some ''POST'', headers = [],
        body = Some (JsonBody (JObj [(''email'', JStr email), (''password'', JStr password)]))\<rparr>\<rparr>
   \<and> map_of (headers (config (apiRequest st (AuthAPI_login email password)))) ''Content-Type''
       = Some ''application/json''
   \<and> AuthAPI_login email password
       \<noteq> apiPostForm ''/auth/login'' [(''email'', email), (''password'', password)]"
  by (simp add: AuthAPI_login_def apiPost_def apiPostForm_def apiRequest_def spread_def
      defaultHeaders_def)

subsection \<open>Status labels and categories\<close>

lemma formatStatus_enumerated:
  "map formatStatus [''SUBMITTED'', ''UNDER_REVIEW'', ''UNDER_INVESTIGATION'', ''IN_PROGRESS'',
      ''APPROVED'', ''REJECTED'', ''PAID'', ''COMPLETED'', ''RESOLVED'', ''CLOSED'', ''PENDING'',
      ''FAILED'', ''REFUNDED'']
   = map JStr [''Submitted'', ''Under Review'', ''Under Investigation'', ''In Progress'',
      ''Approved'', ''Rejected'', ''Paid'', ''Completed'', ''Resolved'', ''Closed'', ''Pending'',
      ''Failed'', ''Refunded'']"
  by (simp add: formatStatus_def statusMap_def objMember_def jsOr_def)

lemma getStatusClass_enumerated:
  "map getStatusClass [''SUBMITTED'', ''UNDER_REVIEW'', ''UNDER_INVESTIGATION'', ''IN_PROGRESS'',
      ''APPROVED'', ''REJECTED'', ''PAID'', ''COMPLETED'', ''RESOLVED'', ''CLOSED'', ''PENDING'',
      ''FAILED'', ''REFUNDED'']
   = map JStr [''submitted'', ''under-review'', ''under-review'', ''under-review'',
      ''approved'', ''rejected'', ''paid'', ''completed'', ''completed'', ''completed'',
      ''submitted'', ''rejected'', ''submitted'']"
  by (simp add: getStatusClass_def classMap_def objMember_def jsOr_def)

text \<open>
  A string that is neither one of the thirteen keys nor the name of a member of
  \<^verbatim>\<open>Object.prototype\<close> falls through to the default.
\<close>

lemma status_fallback:
  "status \<notin> set (map fst statusMap) \<Longrightarrow> status \<noteq> ''__proto__'' \<Longrightarrow>
   objectPrototype status = JUndefined \<Longrightarrow>
   formatStatus status = JStr status \<and> getStatusClass status = JStr ''submitted''"
  by (simp add: formatStatus_def getStatusClass_def statusMap_def classMap_def objMember_def
      jsOr_def)

text \<open>
  C2. The two lookups index an object literal with the status, and an object literal
  inherits from \<^verbatim>\<open>Object.prototype\<close>. For the string \<^verbatim>\<open>constructor\<close> the lookup
  finds the inherited function \<^verbatim>\<open>Object\<close>, which is truthy, so
  \<open>formatStatus\<close> returns that function and not the string it was given, and
  \<open>getStatusClass\<close> returns it and not \<^verbatim>\<open>submitted\<close>.
\<close>

theorem status_lookup_inherited_member:
  "formatStatus ''constructor'' = JFun ''Object''
   \<and> getStatusClass ''constructor'' = JFun ''Object''
   \<and> formatStatus ''constructor'' \<noteq> JStr ''constructor''
   \<and> getStatusClass ''constructor'' \<noteq> JStr ''submitted''"
  by (simp add: formatStatus_def getStatusClass_def statusMap_def classMap_def objMember_def
      objectPrototype_def jsOr_def)

subsection \<open>Search and its errors\<close>















subsection \<open>Status filter and search\<close>




subsection \<open>Rendering records that convert\<close>





























subsection \<open>The initial load\<close>




subsection \<open>Marking a notification as read\<close>

text \<open>
  C5. \<open>markNotificationRead\<close> makes no optimistic update. Its first effect is the
  call of the server. When that call fails the state is the one before, so the
  \<^verbatim>\<open>is_read\<close> flag of every cached notification is as it was. When it succeeds,
  the first cached notification with the given identifier has \<^verbatim>\<open>is_read\<close> set to
  \<^verbatim>\<open>true\<close>, with its other properties and all other notifications unchanged; when no
  cached notification has the identifier the state is unchanged.
\<close>

theorem markNotificationRead_after_server:
  "fst (markNotificationRead i (Inl e) s) = s
   \<and> (notifications s = pre @ n # post
        \<and> (\<forall>m\<in>set pre. objMember m ''notification_id'' \<noteq> JNum i)
        \<and> objMember n ''notification_id'' = JNum i
      \<longrightarrow> (\<exists>n'. fst (markNotificationRead i (Inr r) s) = s\<lparr>notifications := pre @ n' # post\<rparr>
             \<and> objMember n' ''is_read'' = JBool True
             \<and> (\<forall>k. k \<noteq> ''is_read'' \<longrightarrow> objMember n' k = objMember n k)))
   \<and> ((\<forall>m\<in>set (notifications s). objMember m ''notification_id'' \<noteq> JNum i)
      \<longrightarrow> fst (markNotificationRead i (Inr r) s) = s)
   \<and> hd (snd (markNotificationRead i res s)) = Call (NotificationAPI_markAsRead i)"
proof (intro conjI impI)
  show "fst (markNotificationRead i (Inl e) s) = s"
    by (simp add: markNotificationRead_def)
next
  assume a: "notifications s = pre @ n # post
        \<and> (\<forall>m\<in>set pre. objMember m ''notification_id'' \<noteq> JNum i)
        \<and> objMember n ''notification_id'' = JNum i"
  let ?n = "AList.update ''is_read'' (JBool True) n"
  from a have "mark_first i (notifications s) = pre @ ?n # post"
    by (simp add: mark_first_found)
  then have "fst (markNotificationRead i (Inr r) s) = s\<lparr>notifications := pre @ ?n # post\<rparr>"
    by (simp add: markNotificationRead_def)
  moreover have "objMember ?n ''is_read'' = JBool True"
    by (simp add: objMember_update)
  moreover have "\<forall>k. k \<noteq> ''is_read'' \<longrightarrow> objMember ?n k = objMember n k"
    by (simp add: objMember_update)
  ultimately show "\<exists>n'. fst (markNotificationRead i (Inr r) s) = s\<lparr>notifications := pre @ n' # post\<rparr>
             \<and> objMember n' ''is_read'' = JBool True
             \<and> (\<forall>k. k \<noteq> ''is_read'' \<longrightarrow> objMember n' k = objMember n k)"
    by blast
next
  assume "\<forall>m\<in>set (notifications s). objMember m ''notification_id'' \<noteq> JNum i"
  then show "fst (markNotificationRead i (Inr r) s) = s"
    by (simp add: markNotificationRead_def mark_first_absent)
next
  show "hd (snd (markNotificationRead i res s)) = Call (NotificationAPI_markAsRead i)"
    by (cases res) (simp_all add: markNotificationRead_def)
qed

text \<open>
  On the sample dashboard: a failed call for notification 2 changes nothing, a
  successful one marks the second notification and keeps its title, and a successful
  call for an identifier that is not cached changes nothing.
\<close>

theorem markNotificationRead_after_server_witness:
  "fst (markNotificationRead 2 (Inl (Error ''Request failed'')) sample_state) = sample_state
   \<and> (\<exists>n'. fst (markNotificationRead 2 (Inr JNull) sample_state)
              = sample_state\<lparr>notifications := [notice1] @ n' # []\<rparr>
           \<and> objMember n' ''is_read'' = JBool True
           \<and> objMember n' ''title'' = JStr ''Request approved'')
   \<and> fst (markNotificationRead 7 (Inr JNull) sample_state) = sample_state"
proof -
  have h1: "notifications sample_state = [notice1] @ notice2 # []
        \<and> (\<forall>m\<in>set [notice1]. objMember m ''notification_id'' \<noteq> JNum 2)
        \<and> objMember notice2 ''notification_id'' = JNum 2"
    by (simp add: sample_state_def notice1_def notice2_def objMember_def)
  have h2: "\<forall>m\<in>set (notifications sample_state). objMember m ''notification_id'' \<noteq> JNum 7"
    by (simp add: sample_state_def notice1_def notice2_def objMember_def)
  have t: "objMember notice2 ''title'' = JStr ''Request approved''"
    by (simp add: notice2_def objMember_def)
  from markNotificationRead_after_server
    [of 2 "Error ''Request failed''" sample_state "[notice1]" notice2 "[]" JNull "Inr JNull"] h1 t
  have A: "fst (markNotificationRead 2 (Inl (Error ''Request failed'')) sample_state) = sample_state
   \<and> (\<exists>n'. fst (markNotificationRead 2 (Inr JNull) sample_state)
              = sample_state\<lparr>notifications := [notice1] @ n' # []\<rparr>
           \<and> objMember n' ''is_read'' = JBool True
           \<and> objMember n' ''title'' = JStr ''Request approved'')"
    by auto
  from markNotificationRead_after_server
    [of 7 "Error ''Request failed''" sample_state "[]" notice2 "[]" JNull "Inr JNull"] h2
  have B: "fst (markNotificationRead 7 (Inr JNull) sample_state) = sample_state"
    by blast
  from A B show ?thesis by blast
qed

subsection \<open>Login, logout and the two scopes\<close>

text \<open>
  C6. A successful login whose response carries the token \<open>t\<close> (what its
  \<^verbatim>\<open>access_token\<close> is as a string) stores, with
  \<open>u\<close> the projection of the response to \<^verbatim>\<open>user_id\<close>, \<^verbatim>\<open>email\<close> and
  \<^verbatim>\<open>role\<close>: with \<^verbatim>\<open>remember\<close> true, \<open>t\<close> and \<open>u\<close> in both
  \<^verbatim>\<open>localStorage\<close> and \<^verbatim>\<open>sessionStorage\<close>; with \<^verbatim>\<open>remember\<close> false,
  \<open>t\<close> and \<open>u\<close> in \<^verbatim>\<open>sessionStorage\<close>, with \<^verbatim>\<open>localStorage\<close> left as it
  was. A confirmed logout leaves neither scope with a token or user data, whatever they
  held.
\<close>

theorem login_logout_scopes:
  "js_toString (objMember d ''access_token'') = Inr t \<Longrightarrow>
   u = [(''user_id'', objMember d ''user_id''), (''email'', objMember d ''email''),
        (''role'', objMember d ''role'')] \<Longrightarrow>
   fst (login email password remember (Inr d) st) = AuthAPI_login email password
   \<and> fst (snd (login email password remember (Inr d) st)) = Inr d
   \<and> access_token (localStorage (snd (snd (login email password True (Inr d) st)))) = Some t
   \<and> userData (localStorage (snd (snd (login email password True (Inr d) st)))) = Some u
   \<and> access_token (sessionStorage (snd (snd (login email password True (Inr d) st)))) = Some t
   \<and> userData (sessionStorage (snd (snd (login email password True (Inr d) st)))) = Some u
   \<and> access_token (sessionStorage (snd (snd (login email password False (Inr d) st)))) = Some t
   \<and> userData (sessionStorage (snd (snd (login email password False (Inr d) st)))) = Some u
   \<and> localStorage (snd (snd (login email password False (Inr d) st))) = localStorage st
   \<and> access_token (localStorage (fst (logout True st))) = None
   \<and> userData (localStorage (fst (logout True st))) = None
   \<and> access_token (sessionStorage (fst (logout True st))) = None
   \<and> userData (sessionStorage (fst (logout True st))) = None"
  by (simp add: login_def logout_def setAuthToken_def setUserData_def clearAuthToken_def Let_def)

theorem login_logout_scopes_witness:
  "access_token (localStorage
       (snd (snd (login ''citizen@example.org'' ''secret'' True (Inr sample_login)
          sample_storage))))
     = Some ''fresh''
   \<and> access_token (sessionStorage
       (snd (snd (login ''citizen@example.org'' ''secret'' True (Inr sample_login)
          sample_storage))))
     = Some ''fresh''
   \<and> userData (localStorage
       (snd (snd (login ''citizen@example.org'' ''secret'' True (Inr sample_login)
          sample_storage))))
       = Some [(''user_id'', JNum 4), (''email'', JStr ''citizen@example.org''),
               (''role'', JStr ''citizen'')]
   \<and> access_token (sessionStorage
       (snd (snd (login ''citizen@example.org'' ''secret'' False (Inr sample_login)
          sample_storage))))
     = Some ''fresh''
   \<and> access_token (localStorage
       (snd (snd (login ''citizen@example.org'' ''secret'' False (Inr sample_login)
          sample_storage))))
     = Some ''durable''
   \<and> access_token (localStorage (fst (logout True sample_storage))) = None
   \<and> access_token (sessionStorage (fst (logout True sample_storage))) = None"
proof -
  have h: "js_toString (objMember sample_login ''access_token'') = Inr ''fresh''"
    by (simp add: sample_login_def objMember_def)
  have u: "[(''user_id'', JNum 4), (''email'', JStr ''citizen@example.org''),
            (''role'', JStr ''citizen'')]
      = [(''user_id'', objMember sample_login ''user_id''),
         (''email'', objMember sample_login ''email''),
         (''role'', objMember sample_login ''role'')]"
    by (simp add: sample_login_def objMember_def)
  have l: "access_token (localStorage sample_storage) = Some ''durable''"
    by (simp add: sample_storage_def empty_scope_def)
  from login_logout_scopes
    [OF h u, of "''citizen@example.org''" "''secret''" True sample_storage] l
  show ?thesis
    by simp
qed

subsection \<open>Feedback\<close>

text \<open>
  C7, as the code has it. \<open>handleFeedback\<close> rejects exactly the rating that
  \<^verbatim>\<open>parseInt\<close> reads as 0: then it only shows the validation message and makes no
  network call. For every other reading of the rating input, a negative number and NaN
  among them, it makes exactly one network call, the creation of the feedback with that
  rating.
\<close>

theorem handleFeedback_rejects_zero:
  "(parseInt v = JNum 0
      \<longrightarrow> handleFeedback v t c res
          = [ShowElementMessage ''feedback-modal-message'' ''Please select a rating'' ''error''])
   \<and> (parseInt v \<noteq> JNum 0
      \<longrightarrow> filter is_network (handleFeedback v t c res)
          = [Call (FeedbackAPI_create
               (JObj [(''rating'', parseInt v), (''feedback_type'', JStr t),
                      (''comment'', JStr c)]))])"
  by (auto simp add: handleFeedback_def Let_def split: sum.splits error.splits)

theorem handleFeedback_rejects_zero_witness:
  "handleFeedback ''0'' ''SERVICE'' ''Slow'' (Inr JNull)
      = [ShowElementMessage ''feedback-modal-message'' ''Please select a rating'' ''error'']
   \<and> filter is_network (handleFeedback ''5'' ''SERVICE'' ''Quick'' (Inr JNull))
      = [Call (FeedbackAPI_create
           (JObj [(''rating'', JNum 5), (''feedback_type'', JStr ''SERVICE''),
                  (''comment'', JStr ''Quick'')]))]"
  using handleFeedback_rejects_zero [of "''0''" "''SERVICE''" "''Slow''" "Inr JNull"]
    handleFeedback_rejects_zero [of "''5''" "''SERVICE''" "''Quick''" "Inr JNull"]
  by (simp add: parseInt_samples)

text \<open>
  The rating inputs \<^verbatim>\<open>-1\<close> and the empty string are below 1 and not numeric, and
  the feedback is sent all the same, with the ratings -1 and NaN.
\<close>

theorem handleFeedback_below_one_counterexample:
  "filter is_network (handleFeedback ''-1'' ''SERVICE'' ''Slow'' (Inr JNull))
      = [Call (FeedbackAPI_create
           (JObj [(''rating'', JNum (- 1)), (''feedback_type'', JStr ''SERVICE''),
                  (''comment'', JStr ''Slow'')]))]
   \<and> filter is_network (handleFeedback [] ''SERVICE'' ''Slow'' (Inr JNull))
      = [Call (FeedbackAPI_create
           (JObj [(''rating'', JNaN), (''feedback_type'', JStr ''SERVICE''),
                  (''comment'', JStr ''Slow'')]))]"
  by (simp add: handleFeedback_def parseInt_samples Let_def)

subsection \<open>A new request\<close>

lemma handleNewRequest_scheduled:
  "createRes = Inr nr \<Longrightarrow> attachment = None \<or> uploadRes = Inr u \<Longrightarrow>
   SetTimeout 1500 \<in> set (handleNewRequest ty de attachment createRes uploadRes)"
  by (auto simp add: handleNewRequest_def split: option.splits)

lemma handleNewRequest_upload_failed:
  "handleNewRequest ty de (Some f) (Inr nr) (Inl (Error m))
     = [Call (RequestAPI_create (JObj [(''request_type'', JStr ty), (''description'', JStr de)])),
        Upload (objMember nr ''request_id'') f,
        ShowElementMessage ''request-modal-message'' m ''error'']"
  by (simp add: handleNewRequest_def)

lemma submitNewRequest_frame:
  "fst (submitNewRequest ty de a cr ur rr s) = s\<lparr>requests := requests (fst (submitNewRequest ty de a cr ur rr s))\<rparr>"
  by (cases rr) (simp_all add: submitNewRequest_def reloadRequests_def Let_def)

text \<open>
  C8, as the code has it. When the creation succeeds and either no file was chosen or
  the upload succeeds, the timer's callback refetches the requests and replaces
  \<^verbatim>\<open>state.requests\<close> with the fetched list (and leaves it when the refetch
  fails). When the creation succeeds and the upload of the chosen file fails, the
  handler shows the upload's error in the request form with the type \<^verbatim>\<open>error\<close>, sets
  no timer and makes no further call: the request is not deleted, and the requests are
  not refetched. In every case the complaints, the payments, the notifications and the
  filters are unchanged.
\<close>

theorem submitNewRequest_refresh:
  "(createRes = Inr nr \<and> (attachment = None \<or> uploadRes = Inr u)
      \<longrightarrow> fst (submitNewRequest ty de attachment createRes uploadRes (Inr xs) s) = s\<lparr>requests := xs\<rparr>
        \<and> Call RequestAPI_getMyRequests
            \<in> set (snd (submitNewRequest ty de attachment createRes uploadRes (Inr xs) s))
        \<and> fst (submitNewRequest ty de attachment createRes uploadRes (Inl e) s) = s)
   \<and> (createRes = Inr nr \<and> attachment = Some f \<and> uploadRes = Inl (Error m)
      \<longrightarrow> submitNewRequest ty de attachment createRes uploadRes reloadRes s
          = (s, [Call (RequestAPI_create
                   (JObj [(''request_type'', JStr ty), (''description'', JStr de)])),
                 Upload (objMember nr ''request_id'') f,
                 ShowElementMessage ''request-modal-message'' m ''error'']))
   \<and> complaints (fst (submitNewRequest ty de attachment createRes uploadRes reloadRes s)) = complaints s
   \<and> payments (fst (submitNewRequest ty de attachment createRes uploadRes reloadRes s)) = payments s
   \<and> notifications (fst (submitNewRequest ty de attachment createRes uploadRes reloadRes s))
       = notifications s
   \<and> filters (fst (submitNewRequest ty de attachment createRes uploadRes reloadRes s)) = filters s"
proof (intro conjI impI)
  assume a: "createRes = Inr nr \<and> (attachment = None \<or> uploadRes = Inr u)"
  then have t: "SetTimeout 1500 \<in> set (handleNewRequest ty de attachment createRes uploadRes)"
    using handleNewRequest_scheduled by blast
  then show "fst (submitNewRequest ty de attachment createRes uploadRes (Inr xs) s) = s\<lparr>requests := xs\<rparr>"
    by (simp add: submitNewRequest_def reloadRequests_def Let_def)
  from t show "Call RequestAPI_getMyRequests
            \<in> set (snd (submitNewRequest ty de attachment createRes uploadRes (Inr xs) s))"
    by (simp add: submitNewRequest_def reloadRequests_def Let_def)
  from t show "fst (submitNewRequest ty de attachment createRes uploadRes (Inl e) s) = s"
    by (simp add: submitNewRequest_def reloadRequests_def Let_def)
next
  assume "createRes = Inr nr \<and> attachment = Some f \<and> uploadRes = Inl (Error m)"
  then show "submitNewRequest ty de attachment createRes uploadRes reloadRes s
          = (s, [Call (RequestAPI_create
                   (JObj [(''request_type'', JStr ty), (''description'', JStr de)])),
                 Upload (objMember nr ''request_id'') f,
                 ShowElementMessage ''request-modal-message'' m ''error''])"
    by (simp add: submitNewRequest_def handleNewRequest_upload_failed Let_def)
next
  let ?s = "fst (submitNewRequest ty de attachment createRes uploadRes reloadRes s)"
  have f: "?s = s\<lparr>requests := requests ?s\<rparr>"
    by (rule submitNewRequest_frame)
  show "complaints ?s = complaints s"
    by (subst f) simp
  show "payments ?s = payments s"
    by (subst f) simp
  show "notifications ?s = notifications s"
    by (subst f) simp
  show "filters ?s = filters s"
    by (subst f) simp
qed

theorem submitNewRequest_refresh_witness:
  "fst (submitNewRequest ''Permit'' ''Garden wall'' None (Inr [(''request_id'', JNum 3)])
         (Inr JNull) (Inr [permit]) sample_state) = sample_state\<lparr>requests := [permit]\<rparr>
   \<and> fst (submitNewRequest ''Permit'' ''Garden wall'' (Some (File ''plan.pdf''))
         (Inr [(''request_id'', JNum 3)]) (Inr JNull) (Inr [permit]) sample_state)
       = sample_state\<lparr>requests := [permit]\<rparr>
   \<and> submitNewRequest ''Permit'' ''Garden wall'' (Some (File ''plan.pdf''))
         (Inr [(''request_id'', JNum 3)]) (Inl (Error ''File upload failed'')) (Inr [permit])
         sample_state
       = (sample_state,
          [Call (RequestAPI_create
             (JObj [(''request_type'', JStr ''Permit''), (''description'', JStr ''Garden wall'')])),
           Upload (JNum 3) (File ''plan.pdf''),
           ShowElementMessage ''request-modal-message'' ''File upload failed'' ''error''])"
proof -
  have i: "objMember [(''request_id'', JNum 3)] ''request_id'' = JNum 3"
    by (simp add: objMember_def)
  from submitNewRequest_refresh [of "Inr [(''request_id'', JNum 3)]" "[(''request_id'', JNum 3)]"
      None "Inr JNull" JNull "''Permit''" "''Garden wall''" "[permit]" sample_state]
  have A: "fst (submitNewRequest ''Permit'' ''Garden wall'' None (Inr [(''request_id'', JNum 3)])
         (Inr JNull) (Inr [permit]) sample_state) = sample_state\<lparr>requests := [permit]\<rparr>"
    by simp
  from submitNewRequest_refresh [of "Inr [(''request_id'', JNum 3)]" "[(''request_id'', JNum 3)]"
      "Some (File ''plan.pdf'')" "Inr JNull" JNull "''Permit''" "''Garden wall''" "[permit]"
      sample_state]
  have B: "fst (submitNewRequest ''Permit'' ''Garden wall'' (Some (File ''plan.pdf''))
         (Inr [(''request_id'', JNum 3)]) (Inr JNull) (Inr [permit]) sample_state)
       = sample_state\<lparr>requests := [permit]\<rparr>"
    by simp
  from submitNewRequest_refresh [of "Inr [(''request_id'', JNum 3)]" "[(''request_id'', JNum 3)]"
      "Some (File ''plan.pdf'')" "Inl (Error ''File upload failed'')" JNull "''Permit''"
      "''Garden wall''" "[permit]" sample_state _ "File ''plan.pdf''" "''File upload failed''"
      "Inr [permit]"] i
  have C: "submitNewRequest ''Permit'' ''Garden wall'' (Some (File ''plan.pdf''))
         (Inr [(''request_id'', JNum 3)]) (Inl (Error ''File upload failed'')) (Inr [permit])
         sample_state
       = (sample_state,
          [Call (RequestAPI_create
             (JObj [(''request_type'', JStr ''Permit''), (''description'', JStr ''Garden wall'')])),
           Upload (JNum 3) (File ''plan.pdf''),
           ShowElementMessage ''request-modal-message'' ''File upload failed'' ''error''])"
    by simp
  from A B C show ?thesis by simp
qed

text \<open>
  The server has created request 3 and the upload of its file fails: the requests are
  not refetched, the dashboard still lists the two old requests, and the last effect
  is an error message in the form.
\<close>

theorem submitNewRequest_upload_failure_counterexample:
  "Call RequestAPI_getMyRequests
     \<notin> set (snd (submitNewRequest ''Permit'' ''Garden wall'' (Some (File ''plan.pdf''))
         (Inr [(''request_id'', JNum 3)]) (Inl (Error ''File upload failed''))
         (Inr [permit, licence, [(''request_id'', JNum 3)]]) sample_state))
   \<and> requests (fst (submitNewRequest ''Permit'' ''Garden wall'' (Some (File ''plan.pdf''))
         (Inr [(''request_id'', JNum 3)]) (Inl (Error ''File upload failed''))
         (Inr [permit, licence, [(''request_id'', JNum 3)]]) sample_state))
       = [permit, licence]
   \<and> last (snd (submitNewRequest ''Permit'' ''Garden wall'' (Some (File ''plan.pdf''))
         (Inr [(''request_id'', JNum 3)]) (Inl (Error ''File upload failed''))
         (Inr [permit, licence, [(''request_id'', JNum 3)]]) sample_state))
       = ShowElementMessage ''request-modal-message'' ''File upload failed'' ''error''"
  by (simp add: submitNewRequest_def handleNewRequest_def sample_state_def Let_def
      RequestAPI_getMyRequests_def RequestAPI_create_def apiGet_def apiPost_def)

subsection \<open>Which token a request carries\<close>

text \<open>
  C9. \<open>getAuthToken\<close> prefers \<^verbatim>\<open>localStorage\<close>: when it holds a token (a
  non-empty string) that token is returned, and when it holds none (no entry, or the
  empty string) the result is what \<^verbatim>\<open>sessionStorage\<close> holds. So with a token in
  \<^verbatim>\<open>localStorage\<close>, whatever \<^verbatim>\<open>sessionStorage\<close> holds, every request of
  \<^verbatim>\<open>apiRequest\<close> that sets no \<^verbatim>\<open>Authorization\<close> header of its own and every
  file upload (of a request whose identifier is \<open>u\<close> as a string) carries
  \<^verbatim>\<open>Bearer\<close> with the \<^verbatim>\<open>localStorage\<close> token, and it is
  still the token read after a later login without \<^verbatim>\<open>remember\<close>.
\<close>

theorem getAuthToken_prefers_localStorage:
  "(access_token (localStorage st) = Some t \<and> t \<noteq> [] \<longrightarrow> getAuthToken st = Some t)
   \<and> (access_token (localStorage st) = None \<or> access_token (localStorage st) = Some []
        \<longrightarrow> getAuthToken st = access_token (sessionStorage st))
   \<and> (access_token (localStorage st) = Some t \<and> t \<noteq> []
        \<and> map_of (headers (call_options c)) ''Authorization'' = None
        \<longrightarrow> map_of (headers (config (apiRequest st c))) ''Authorization''
            = Some (''Bearer '' @ t))
   \<and> (access_token (localStorage st) = Some t \<and> t \<noteq> [] \<and> js_toString i = Inr u
        \<longrightarrow> FileAPI_uploadRequestFile st i f
            = Inr \<lparr>url = ''/files/requests/'' @ u @ ''/upload'',
                   config = \<lparr>http_method = Some ''POST'',
                     headers = [(''Authorization'', ''Bearer '' @ t)],
                     body = Some (MultipartBody [(''file'', f)])\<rparr>\<rparr>)
   \<and> (access_token (localStorage st) = Some t \<and> t \<noteq> []
        \<longrightarrow> getAuthToken (snd (snd (login email password False (Inr d) st))) = Some t)"
proof (intro conjI impI)
  assume a: "access_token (localStorage st) = Some t \<and> t \<noteq> []
        \<and> map_of (headers (call_options c)) ''Authorization'' = None"
  then have g: "getAuthToken st = Some t"
    by (simp add: getAuthToken_def)
  from a have "map_of (headers (config (apiRequest st c))) ''Authorization''
      = map_of (defaultHeaders (getAuthToken st)) ''Authorization''"
    by (simp add: apiRequest_def map_of_spread)
  with a g show "map_of (headers (config (apiRequest st c))) ''Authorization''
      = Some (''Bearer '' @ t)"
    by (simp add: defaultHeaders_def)
qed (auto simp add: getAuthToken_def FileAPI_uploadRequestFile_def login_def setAuthToken_def
      setUserData_def Let_def split: sum.splits)

theorem getAuthToken_prefers_localStorage_witness:
  "getAuthToken sample_storage = Some ''durable''
   \<and> getAuthToken (sample_storage\<lparr>localStorage := empty_scope\<rparr>) = Some ''ephemeral''
   \<and> map_of (headers (config (apiRequest sample_storage RequestAPI_getMyRequests)))
       ''Authorization''
       = Some ''Bearer durable''
   \<and> FileAPI_uploadRequestFile sample_storage (JNum 7) (File ''plan.pdf'')
       = Inr \<lparr>url = ''/files/requests/7/upload'',
              config = \<lparr>http_method = Some ''POST'',
                headers = [(''Authorization'', ''Bearer durable'')],
                body = Some (MultipartBody [(''file'', File ''plan.pdf'')])\<rparr>\<rparr>
   \<and> getAuthToken
       (snd (snd (login ''citizen@example.org'' ''secret'' False (Inr sample_login)
          sample_storage))) = Some ''durable''"
proof -
  have l: "access_token (localStorage sample_storage) = Some ''durable''"
    by (simp add: sample_storage_def empty_scope_def)
  have e: "access_token (localStorage (sample_storage\<lparr>localStorage := empty_scope\<rparr>)) = None"
    "access_token (sessionStorage (sample_storage\<lparr>localStorage := empty_scope\<rparr>))
       = Some ''ephemeral''"
    by (simp_all add: sample_storage_def empty_scope_def)
  have c: "map_of (headers (call_options RequestAPI_getMyRequests)) ''Authorization'' = None"
    by (simp add: RequestAPI_getMyRequests_def apiGet_def)
  have i: "js_toString (JNum 7) = Inr ''7''"
    by code_simp
  from getAuthToken_prefers_localStorage
    [where st = sample_storage and t = "''durable''" and c = RequestAPI_getMyRequests
       and i = "JNum 7" and u = "''7''" and f = "File ''plan.pdf''"
       and email = "''citizen@example.org''" and password = "''secret''" and d = sample_login]
    l c i
  have A: "getAuthToken sample_storage = Some ''durable''
   \<and> map_of (headers (config (apiRequest sample_storage RequestAPI_getMyRequests)))
       ''Authorization''
       = Some ''Bearer durable''
   \<and> FileAPI_uploadRequestFile sample_storage (JNum 7) (File ''plan.pdf'')
       = Inr \<lparr>url = ''/files/requests/7/upload'',
              config = \<lparr>http_method = Some ''POST'',
                headers = [(''Authorization'', ''Bearer durable'')],
                body = Some (MultipartBody [(''file'', File ''plan.pdf'')])\<rparr>\<rparr>
   \<and> getAuthToken
       (snd (snd (login ''citizen@example.org'' ''secret'' False (Inr sample_login)
          sample_storage))) = Some ''durable''"
    by simp
  from getAuthToken_prefers_localStorage
    [where st = "sample_storage\<lparr>localStorage := empty_scope\<rparr>" and t = "''durable''"] e
  have B: "getAuthToken (sample_storage\<lparr>localStorage := empty_scope\<rparr>) = Some ''ephemeral''"
    by simp
  from A B show ?thesis by simp
qed

subsection \<open>Search as a selection\<close>




end
